theory Spec2Isabelle
  imports Main
begin

section \<open>ClanBot: data model\<close>

text \<open>
  The bot keeps three representations of a clan: rows of a SQLite database, a role of
  the guild, and the permission overwrites of two channels. The database is modelled by
  its two tables, the guild by the lists the library iterates over, and every call to
  the chat platform by a function on the world that asks an oracle whether the call
  fails.
\<close>

subsection \<open>Exceptions\<close>

datatype exn =
    Forbidden
  | HTTPException
  | IntegrityError
  | AttributeError
  | UnboundLocalError

subsection \<open>The database (tables \<open>clans\<close> and \<open>clan_members\<close>)\<close>

record clan_row =
  clan_id :: int
  clan_name :: string
  leader_id :: int
  text_channel_id :: int
  voice_channel_id :: int

record database =
  clans :: "clan_row list"
  clan_members :: "(int \<times> int) list"
  seq :: int

subsection \<open>The guild\<close>

datatype principal = RoleP int | MemberP int

record permission_overwrite =
  view_channel :: "bool option"
  send_messages :: "bool option"
  connect :: "bool option"
  speak :: "bool option"
  manage_channels :: "bool option"

type_synonym overwrite_dict = "(principal \<times> permission_overwrite) list"

record role =
  role_id :: int
  role_name :: string

record member =
  member_id :: int
  member_roles :: "int list"

datatype channel_kind = TextChannel | VoiceChannel | CategoryChannel

record channel =
  channel_id :: int
  channel_name :: string
  channel_kind :: channel_kind
  category_id :: "int option"
  overwrites :: overwrite_dict

record guild_state =
  default_role :: int
  roles :: "role list"
  members :: "member list"
  channels :: "channel list"
  next_id :: int

subsection \<open>Calls to the platform, replies, and the world\<close>

datatype ext_call =
    CreateRole string
  | DeleteRole int
  | CreateCategory string
  | CreateTextChannel string
  | CreateVoiceChannel string
  | DeleteChannel int
  | EditChannel int
  | AddRoles int int
  | RemoveRoles int int

record embed =
  embed_title :: string
  embed_fields :: "(string \<times> string \<times> bool) list"

datatype reply = Message string | EmbedReply embed

datatype event =
    Ext ext_call
  | ExtFailed ext_call exn
  | DbInsertClan int
  | DbInsertMember int int
  | DbDeleteMember int int
  | DbDeleteClan int
  | Reply reply
  | Print string
  | CreateTask int

text \<open>
  \<open>fails\<close> is the platform's answer to each call: \<open>None\<close> lets the call through,
  \<open>Some e\<close> makes it raise \<open>e\<close> and change nothing. \<open>exn_text\<close> is \<open>str(e)\<close>, the text the
  library gives to an exception. \<open>trace\<close> records, in order,
  every call to the platform, every statement that changes the database, every reply to
  the requester, every line printed and every task handed to the event loop.
\<close>

record world =
  db :: database
  guild :: guild_state
  fails :: "ext_call \<Rightarrow> exn option"
  exn_text :: "exn \<Rightarrow> string"
  trace :: "event list"

type_synonym 'a io = "world \<Rightarrow> (exn + 'a) \<times> world"

definition io_return :: "'a \<Rightarrow> 'a io" where
  "io_return x w = (Inr x, w)"

definition io_raise :: "exn \<Rightarrow> 'a io" where
  "io_raise e w = (Inl e, w)"

text \<open>\<open>io_try m h k\<close> is \<open>try: x = m except e: h e\<close> followed by \<open>k x\<close>: the handler
  \<open>h\<close> ends the function (it returns or raises), the continuation \<open>k\<close> runs only when
  \<open>m\<close> raised nothing.\<close>

definition io_try :: "'a io \<Rightarrow> (exn \<Rightarrow> 'b io) \<Rightarrow> ('a \<Rightarrow> 'b io) \<Rightarrow> 'b io" where
  "io_try m h k w = (case m w of (Inl e, w') \<Rightarrow> h e w' | (Inr x, w') \<Rightarrow> k x w')"

definition io_bind :: "'a io \<Rightarrow> ('a \<Rightarrow> 'b io) \<Rightarrow> 'b io" where
  "io_bind m f = io_try m io_raise f"

definition log_event :: "event \<Rightarrow> world \<Rightarrow> world" where
  "log_event e w = w\<lparr>trace := trace w @ [e]\<rparr>"

text \<open>A call to the platform: the oracle decides whether it raises; otherwise its effect
  on the guild is applied.\<close>

definition ext :: "ext_call \<Rightarrow> (guild_state \<Rightarrow> guild_state) \<Rightarrow> unit io" where
  "ext call effect w =
     (case fails w call of
        Some e \<Rightarrow> (Inl e, log_event (ExtFailed call e) w)
      | None \<Rightarrow> (Inr (), log_event (Ext call) (w\<lparr>guild := effect (guild w)\<rparr>)))"

text \<open>\<open>interaction.response.send_message\<close> and \<open>print\<close>.\<close>

definition send_message :: "reply \<Rightarrow> unit io" where
  "send_message r w = (Inr (), log_event (Reply r) w)"

definition print :: "string \<Rightarrow> unit io" where
  "print s w = (Inr (), log_event (Print s) w)"

section \<open>Helper functions of the source\<close>

subsection \<open>Database helpers\<close>

definition get_clan_by_name :: "database \<Rightarrow> string \<Rightarrow> clan_row option" where
  "get_clan_by_name d name = find (\<lambda>c. clan_name c = name) (clans d)"

definition get_clan_by_id :: "database \<Rightarrow> int \<Rightarrow> clan_row option" where
  "get_clan_by_id d cid = find (\<lambda>c. clan_id c = cid) (clans d)"

text \<open>\<open>SELECT member_id FROM clan_members WHERE clan_id = ?\<close> is answered from the index of
  the primary key \<open>(clan_id, member_id)\<close>, so the members come in ascending order.\<close>

definition get_members :: "database \<Rightarrow> int \<Rightarrow> int list" where
  "get_members d cid = sort (map snd (filter (\<lambda>row. fst row = cid) (clan_members d)))"

definition get_user_clan :: "database \<Rightarrow> int \<Rightarrow> int option" where
  "get_user_clan d user_id =
     (case find (\<lambda>row. snd row = user_id) (clan_members d) of
        None \<Rightarrow> None
      | Some row \<Rightarrow> Some (fst row))"

text \<open>AUTOINCREMENT: one more than the largest rowid the table ever held.\<close>

definition next_rowid :: "database \<Rightarrow> int" where
  "next_rowid d = fold max (map clan_id (clans d)) (seq d) + 1"

text \<open>
  The first INSERT is rejected when the name is taken (\<open>name TEXT UNIQUE\<close>), the second
  when the pair is already there (the primary key of \<open>clan_members\<close>); the second one
  raises with the clan row already inserted on the connection.
\<close>

definition add_clan_to_db :: "string \<Rightarrow> int \<Rightarrow> int \<Rightarrow> int \<Rightarrow> int io" where
  "add_clan_to_db name leader text_id voice_id w =
     (let d = db w in
      if name \<in> set (map clan_name (clans d)) then (Inl IntegrityError, w)
      else
        let cid = next_rowid d;
            row = \<lparr>clan_id = cid, clan_name = name, leader_id = leader,
                   text_channel_id = text_id, voice_channel_id = voice_id\<rparr>;
            d1 = d\<lparr>clans := clans d @ [row], seq := cid\<rparr>;
            w1 = log_event (DbInsertClan cid) (w\<lparr>db := d1\<rparr>)
        in if (cid, leader) \<in> set (clan_members d1) then (Inl IntegrityError, w1)
           else (Inr cid,
                 log_event (DbInsertMember cid leader)
                   (w1\<lparr>db := d1\<lparr>clan_members := clan_members d1 @ [(cid, leader)]\<rparr>\<rparr>)))"

definition remove_clan_from_db :: "int \<Rightarrow> unit io" where
  "remove_clan_from_db cid w =
     (Inr (),
      log_event (DbDeleteClan cid)
        (w\<lparr>db := (db w)\<lparr>clans := filter (\<lambda>c. clan_id c \<noteq> cid) (clans (db w)),
                         clan_members := filter (\<lambda>row. fst row \<noteq> cid) (clan_members (db w))\<rparr>\<rparr>))"

text \<open>\<open>INSERT OR IGNORE INTO clan_members\<close> and \<open>DELETE FROM clan_members WHERE clan_id = ?
  AND member_id = ?\<close>, as the command handlers and the event handler run them.\<close>

definition insert_member :: "int \<Rightarrow> int \<Rightarrow> unit io" where
  "insert_member cid mid w =
     (Inr (),
      log_event (DbInsertMember cid mid)
        (if (cid, mid) \<in> set (clan_members (db w)) then w
         else w\<lparr>db := (db w)\<lparr>clan_members := clan_members (db w) @ [(cid, mid)]\<rparr>\<rparr>))"

definition delete_member :: "int \<Rightarrow> int \<Rightarrow> unit io" where
  "delete_member cid mid w =
     (Inr (),
      log_event (DbDeleteMember cid mid)
        (w\<lparr>db := (db w)\<lparr>clan_members := filter (\<lambda>row. row \<noteq> (cid, mid)) (clan_members (db w))\<rparr>\<rparr>))"

subsection \<open>Lookups in the guild\<close>

definition get_role :: "guild_state \<Rightarrow> string \<Rightarrow> role option" where
  "get_role g name = find (\<lambda>r. role_name r = name) (roles g)"

definition get_channel :: "guild_state \<Rightarrow> int \<Rightarrow> channel option" where
  "get_channel g cid = find (\<lambda>ch. channel_id ch = cid) (channels g)"

definition get_member :: "guild_state \<Rightarrow> int \<Rightarrow> member option" where
  "get_member g mid = find (\<lambda>m. member_id m = mid) (members g)"

definition categories :: "guild_state \<Rightarrow> channel list" where
  "categories g = filter (\<lambda>ch. channel_kind ch = CategoryChannel) (channels g)"

definition get_category :: "guild_state \<Rightarrow> string \<Rightarrow> channel option" where
  "get_category g name = find (\<lambda>ch. channel_name ch = name) (categories g)"

definition category_channels :: "guild_state \<Rightarrow> channel \<Rightarrow> channel list" where
  "category_channels g cat = filter (\<lambda>ch. category_id ch = Some (channel_id cat)) (channels g)"

definition role_members :: "guild_state \<Rightarrow> role \<Rightarrow> member list" where
  "role_members g r = filter (\<lambda>m. role_id r \<in> set (member_roles m)) (members g)"

subsection \<open>Permission overwrites\<close>

definition PermissionOverwrite :: permission_overwrite where
  "PermissionOverwrite =
     \<lparr>view_channel = None, send_messages = None, connect = None, speak = None,
      manage_channels = None\<rparr>"

definition deny_view :: permission_overwrite where
  "deny_view = PermissionOverwrite\<lparr>view_channel := Some False\<rparr>"

definition member_access :: permission_overwrite where
  "member_access =
     PermissionOverwrite\<lparr>view_channel := Some True, send_messages := Some True,
                          connect := Some True, speak := Some True\<rparr>"

definition leader_access :: permission_overwrite where
  "leader_access = member_access\<lparr>manage_channels := Some True\<rparr>"

text \<open>\<open>d[k] = v\<close> on a Python dict: an existing key keeps its place and takes the new
  value, a new key goes to the end.\<close>

fun dict_set :: "'k \<Rightarrow> 'v \<Rightarrow> ('k \<times> 'v) list \<Rightarrow> ('k \<times> 'v) list" where
  "dict_set k v [] = [(k, v)]"
| "dict_set k v ((k', v') # d) = (if k' = k then (k, v) # d else (k', v') # dict_set k v d)"


subsection \<open>Strings\<close>

text \<open>\<open>str(n)\<close> for the identifiers that appear in mentions, \<open>str.lower\<close> on ASCII
  letters, and \<open>sep.join\<close>.\<close>

fun str_nat :: "nat \<Rightarrow> string" where
  "str_nat n =
     (if n < 10 then [char_of (48 + n)] else str_nat (n div 10) @ [char_of (48 + n mod 10)])"

definition str_int :: "int \<Rightarrow> string" where
  "str_int i = (if i < 0 then CHR ''-'' # str_nat (nat (- i)) else str_nat (nat i))"

definition lower_char :: "char \<Rightarrow> char" where
  "lower_char c =
     (let n = (of_char c :: nat) in if 65 \<le> n \<and> n \<le> 90 then char_of (n + 32) else c)"

definition lower :: "string \<Rightarrow> string" where
  "lower s = map lower_char s"

fun join :: "string \<Rightarrow> string list \<Rightarrow> string" where
  "join sep [] = []"
| "join sep [x] = x"
| "join sep (x # y # ys) = x @ sep @ join sep (y # ys)"

definition member_mention :: "member \<Rightarrow> string" where
  "member_mention m = ''<@'' @ str_int (member_id m) @ ''>''"

definition channel_mention :: "channel \<Rightarrow> string" where
  "channel_mention ch = ''<#'' @ str_int (channel_id ch) @ ''>''"

text \<open>A rendering of exceptions by the name of their class, for the concrete worlds.\<close>

definition exn_str :: "exn \<Rightarrow> string" where
  "exn_str e =
     (case e of
        Forbidden \<Rightarrow> ''Forbidden''
      | HTTPException \<Rightarrow> ''HTTPException''
      | IntegrityError \<Rightarrow> ''IntegrityError''
      | AttributeError \<Rightarrow> ''AttributeError''
      | UnboundLocalError \<Rightarrow> ''UnboundLocalError'')"

section \<open>Calls to the platform\<close>

text \<open>
  Each call asks the oracle first. A call that goes through changes the guild the way the
  platform does: a created object gets the next identifier, a deleted role leaves every
  member that carried it, an edit replaces the overwrites of the channel.
\<close>

definition guild_create_role :: "string \<Rightarrow> role io" where
  "guild_create_role name w =
     (let r = \<lparr>role_id = next_id (guild w), role_name = name\<rparr> in
      io_bind (ext (CreateRole name) (\<lambda>g. g\<lparr>roles := roles g @ [r], next_id := next_id g + 1\<rparr>))
        (\<lambda>_. io_return r) w)"

definition role_delete :: "role \<Rightarrow> unit io" where
  "role_delete r =
     ext (DeleteRole (role_id r))
       (\<lambda>g. g\<lparr>roles := filter (\<lambda>x. role_id x \<noteq> role_id r) (roles g),
               members := map (\<lambda>m. m\<lparr>member_roles := removeAll (role_id r) (member_roles m)\<rparr>)
                            (members g)\<rparr>)"

definition guild_create_channel ::
  "ext_call \<Rightarrow> channel_kind \<Rightarrow> string \<Rightarrow> int option \<Rightarrow> overwrite_dict \<Rightarrow> channel io" where
  "guild_create_channel call k name cat ov w =
     (let ch = \<lparr>channel_id = next_id (guild w), channel_name = name, channel_kind = k,
                 category_id = cat, overwrites = ov\<rparr> in
      io_bind (ext call (\<lambda>g. g\<lparr>channels := channels g @ [ch], next_id := next_id g + 1\<rparr>))
        (\<lambda>_. io_return ch) w)"

definition guild_create_category :: "string \<Rightarrow> channel io" where
  "guild_create_category name =
     guild_create_channel (CreateCategory name) CategoryChannel name None []"

definition guild_create_text_channel :: "string \<Rightarrow> channel \<Rightarrow> overwrite_dict \<Rightarrow> channel io" where
  "guild_create_text_channel name category ov =
     guild_create_channel (CreateTextChannel name) TextChannel name
       (Some (channel_id category)) ov"

definition guild_create_voice_channel :: "string \<Rightarrow> channel \<Rightarrow> overwrite_dict \<Rightarrow> channel io" where
  "guild_create_voice_channel name category ov =
     guild_create_channel (CreateVoiceChannel name) VoiceChannel name
       (Some (channel_id category)) ov"

definition channel_delete :: "channel \<Rightarrow> unit io" where
  "channel_delete ch =
     ext (DeleteChannel (channel_id ch))
       (\<lambda>g. g\<lparr>channels := filter (\<lambda>x. channel_id x \<noteq> channel_id ch) (channels g)\<rparr>)"

definition channel_edit :: "channel \<Rightarrow> overwrite_dict \<Rightarrow> unit io" where
  "channel_edit ch ov =
     ext (EditChannel (channel_id ch))
       (\<lambda>g. g\<lparr>channels := map (\<lambda>x. if channel_id x = channel_id ch then x\<lparr>overwrites := ov\<rparr>
                                     else x) (channels g)\<rparr>)"

text \<open>
  \<open>member.add_roles(role)\<close> and \<open>member.remove_roles(role)\<close> read \<open>role.id\<close> before they
  call the platform, so a \<open>role\<close> that is \<open>None\<close> raises AttributeError.
\<close>

definition add_roles :: "int \<Rightarrow> role option \<Rightarrow> unit io" where
  "add_roles mid r =
     (case r of
        None \<Rightarrow> io_raise AttributeError
      | Some r \<Rightarrow>
          ext (AddRoles mid (role_id r))
            (\<lambda>g. g\<lparr>members :=
                     map (\<lambda>m. if member_id m = mid \<and> role_id r \<notin> set (member_roles m)
                               then m\<lparr>member_roles := member_roles m @ [role_id r]\<rparr> else m)
                       (members g)\<rparr>))"

definition remove_roles :: "int \<Rightarrow> role option \<Rightarrow> unit io" where
  "remove_roles mid r =
     (case r of
        None \<Rightarrow> io_raise AttributeError
      | Some r \<Rightarrow>
          ext (RemoveRoles mid (role_id r))
            (\<lambda>g. g\<lparr>members :=
                     map (\<lambda>m. if member_id m = mid
                               then m\<lparr>member_roles := removeAll (role_id r) (member_roles m)\<rparr>
                               else m)
                       (members g)\<rparr>))"

text \<open>\<open>try: m except discord.Forbidden: h\<close>; any other exception goes on to the caller.\<close>

definition except_forbidden :: "'a io \<Rightarrow> 'a io \<Rightarrow> 'a io" where
  "except_forbidden m h = io_try m (\<lambda>e. if e = Forbidden then h else io_raise e) io_return"

section \<open>The permission synchronizer\<close>

text \<open>Lines 87 to 99 of the source: the dict literal, then one assignment for each
  recorded member that the guild resolves.\<close>

definition build_overwrites :: "guild_state \<Rightarrow> role \<Rightarrow> member \<Rightarrow> int list \<Rightarrow> overwrite_dict" where
  "build_overwrites g r leader members_ids =
     fold (\<lambda>mid ov. case get_member g mid of
                       None \<Rightarrow> ov
                     | Some m \<Rightarrow> dict_set (MemberP (member_id m)) member_access ov)
       members_ids
       (dict_set (MemberP (member_id leader)) leader_access
          (dict_set (RoleP (role_id r)) member_access
             (dict_set (RoleP (default_role g)) deny_view [])))"

definition update_clan_permissions :: "int \<Rightarrow> unit io" where
  "update_clan_permissions cid w =
     (case get_clan_by_id (db w) cid of
        None \<Rightarrow> io_return () w
      | Some clan \<Rightarrow>
          (case (get_role (guild w) (clan_name clan),
                 get_channel (guild w) (text_channel_id clan),
                 get_channel (guild w) (voice_channel_id clan),
                 get_member (guild w) (leader_id clan)) of
             (Some r, Some text_channel, Some voice_channel, Some leader) \<Rightarrow>
               (let ov = build_overwrites (guild w) r leader (get_members (db w) cid) in
                io_try
                  (io_bind (channel_edit text_channel ov) (\<lambda>_. channel_edit voice_channel ov))
                  (\<lambda>e. if e = Forbidden
                       then print (''[WARN] Bot missing access to edit channels for clan ''
                                   @ clan_name clan)
                       else print (''[ERROR] Failed updating permissions for clan ''
                                   @ clan_name clan @ '': '' @ exn_text w e))
                  io_return w)
           | _ \<Rightarrow> io_return () w))"

definition get_or_create_category_for_clan :: "string \<Rightarrow> channel option io" where
  "get_or_create_category_for_clan name w =
     (let category_name = ''CLAN - '' @ name in
      case get_category (guild w) category_name of
        Some category \<Rightarrow> io_return (Some category) w
      | None \<Rightarrow>
          except_forbidden
            (io_bind (guild_create_category category_name) (\<lambda>c. io_return (Some c)))
            (io_bind (print (''[ERROR] Bot missing permission to create category ''
                             @ category_name))
               (\<lambda>_. io_return None)) w)"

section \<open>The event reactor\<close>

text \<open>
  \<open>on_member_remove\<close>: the rows are fetched once, then each one is deleted and a
  reconciliation of its clan is handed to the event loop (\<open>bot.loop.create_task\<close>).
\<close>

definition create_task :: "int \<Rightarrow> unit io" where
  "create_task cid w = (Inr (), log_event (CreateTask cid) w)"

fun on_member_remove_rows :: "int \<Rightarrow> int list \<Rightarrow> unit io" where
  "on_member_remove_rows mid [] = io_return ()"
| "on_member_remove_rows mid (cid # rows) =
     io_bind (delete_member cid mid)
       (\<lambda>_. io_bind (create_task cid) (\<lambda>_. on_member_remove_rows mid rows))"

definition on_member_remove :: "int \<Rightarrow> unit io" where
  "on_member_remove mid w =
     on_member_remove_rows mid
       (map fst (filter (\<lambda>row. snd row = mid) (clan_members (db w)))) w"

section \<open>The command handlers\<close>

text \<open>\<open>if existing_clan_id:\<close> is false for \<open>None\<close> and for \<open>0\<close>.\<close>

definition truthy :: "int option \<Rightarrow> bool" where
  "truthy x = (case x of None \<Rightarrow> False | Some n \<Rightarrow> n \<noteq> 0)"

definition creator_overwrites :: "guild_state \<Rightarrow> role \<Rightarrow> int \<Rightarrow> overwrite_dict" where
  "creator_overwrites g r user =
     dict_set (MemberP user) leader_access
       (dict_set (RoleP (role_id r)) member_access
          (dict_set (RoleP (default_role g)) deny_view []))"

text \<open>
  The handler of \<open>discord.Forbidden\<close> around the two channel creations (lines 223 to 230).
  \<open>text_channel\<close> and \<open>voice_channel\<close> are the local variables of the handler: \<open>None\<close>
  stands for a name that was never bound, and reading it raises UnboundLocalError.
\<close>

definition create_clan_rollback :: "role \<Rightarrow> channel option \<Rightarrow> channel option \<Rightarrow> unit io" where
  "create_clan_rollback r text_channel voice_channel =
     io_bind (send_message (Message ''Bot cannot create channels. Check permissions.''))
       (\<lambda>_. io_bind (role_delete r)
         (\<lambda>_. io_bind (case text_channel of
                          None \<Rightarrow> io_raise UnboundLocalError
                        | Some tc \<Rightarrow> channel_delete tc)
           (\<lambda>_. case voice_channel of
                   None \<Rightarrow> io_raise UnboundLocalError
                 | Some vc \<Rightarrow> channel_delete vc)))"

text \<open>Lines 232 to 245: the role goes to the creator, then the rows are written.\<close>

definition create_clan_store :: "int \<Rightarrow> string \<Rightarrow> role \<Rightarrow> channel \<Rightarrow> channel \<Rightarrow> unit io" where
  "create_clan_store user name r text_channel voice_channel =
     io_bind (add_roles user (Some r))
       (\<lambda>_. io_try
               (add_clan_to_db name user (channel_id text_channel) (channel_id voice_channel))
               (\<lambda>e. if e = IntegrityError
                    then io_bind (send_message (Message ''Clan already exists in database!''))
                           (\<lambda>_. io_bind (role_delete r)
                             (\<lambda>_. io_bind (channel_delete text_channel)
                               (\<lambda>_. channel_delete voice_channel)))
                    else io_raise e)
               (\<lambda>cid. send_message (Message (''Clan **'' @ name
                                             @ ''** created! You are now the leader.''))))"

text \<open>Lines 219 to 230: the \<open>try\<close> around the two channel creations.\<close>

definition create_clan_channels :: "int \<Rightarrow> string \<Rightarrow> role \<Rightarrow> channel \<Rightarrow> unit io" where
  "create_clan_channels user name r category w =
     (let ov = creator_overwrites (guild w) r user in
      io_try (guild_create_text_channel (lower name @ ''-text'') category ov)
        (\<lambda>e. if e = Forbidden then create_clan_rollback r None None else io_raise e)
        (\<lambda>text_channel.
           io_try (guild_create_voice_channel (lower name @ ''-voice'') category ov)
             (\<lambda>e. if e = Forbidden then create_clan_rollback r (Some text_channel) None
                  else io_raise e)
             (\<lambda>voice_channel.
                create_clan_store user name r text_channel voice_channel)) w)"

definition create_clan :: "int \<Rightarrow> string \<Rightarrow> unit io" where
  "create_clan user name w =
     (if truthy (get_user_clan (db w) user) then
        send_message
          (Message ''You are already in a clan! Leave it before creating a new one.'') w
      else if get_clan_by_name (db w) name \<noteq> None then
        send_message (Message (''A clan called **'' @ name @ ''** already exists!'')) w
      else if get_role (guild w) name \<noteq> None then
        send_message (Message (''A role called **'' @ name @ ''** already exists!'')) w
      else
        io_try (guild_create_role name)
          (\<lambda>e. if e = Forbidden
               then send_message (Message ''Bot cannot create role. Check permissions.'')
               else io_raise e)
          (\<lambda>r. io_bind (get_or_create_category_for_clan name)
                 (\<lambda>category.
                    case category of
                      None \<Rightarrow>
                        io_bind (send_message
                                   (Message ''Bot cannot access or create the clan category.''))
                          (\<lambda>_. role_delete r)
                    | Some cat \<Rightarrow> create_clan_channels user name r cat)) w)"

definition invite_clan :: "int \<Rightarrow> int \<Rightarrow> string \<Rightarrow> unit io" where
  "invite_clan user member clan_name' w =
     (case get_clan_by_name (db w) clan_name' of
        None \<Rightarrow> send_message (Message ''Clan not found!'') w
      | Some clan \<Rightarrow>
          if user \<noteq> leader_id clan then
            send_message (Message ''Only the clan leader can invite members!'') w
          else
            io_bind (add_roles member (get_role (guild w) clan_name'))
              (\<lambda>_. io_bind (insert_member (clan_id clan) member)
                (\<lambda>_. io_bind (update_clan_permissions (clan_id clan))
                  (\<lambda>_. send_message
                          (Message (''<@'' @ str_int member @ ''> has been added to **''
                                    @ clan_name' @ ''**!''))))) w)"

definition kick_clan :: "int \<Rightarrow> int \<Rightarrow> string \<Rightarrow> unit io" where
  "kick_clan user member clan_name' w =
     (case get_clan_by_name (db w) clan_name' of
        None \<Rightarrow> send_message (Message ''Clan not found!'') w
      | Some clan \<Rightarrow>
          if user \<noteq> leader_id clan then
            send_message (Message ''Only the clan leader can kick members!'') w
          else
            io_bind (remove_roles member (get_role (guild w) clan_name'))
              (\<lambda>_. io_bind (delete_member (clan_id clan) member)
                (\<lambda>_. io_bind (update_clan_permissions (clan_id clan))
                  (\<lambda>_. send_message
                          (Message (''<@'' @ str_int member @ ''> has been removed from **''
                                    @ clan_name' @ ''**.''))))) w)"

text \<open>The three loops and blocks of \<open>disband_clan\<close> (lines 314 to 340);
  \<open>disband_channel\<close> is the body of the loop over the two channel identifiers.\<close>

fun remove_role_from_members :: "role \<Rightarrow> member list \<Rightarrow> unit io" where
  "remove_role_from_members r [] = io_return ()"
| "remove_role_from_members r (m # ms) =
     io_bind (remove_roles (member_id m) (Some r)) (\<lambda>_. remove_role_from_members r ms)"

definition disband_role :: "string \<Rightarrow> unit io" where
  "disband_role clan_name' w =
     (case get_role (guild w) clan_name' of
        None \<Rightarrow> io_return () w
      | Some r \<Rightarrow>
          io_bind (remove_role_from_members r (role_members (guild w) r))
            (\<lambda>_. except_forbidden (role_delete r)
                    (print (''[WARN] Missing permission to delete role '' @ role_name r))) w)"

definition disband_channel :: "int \<Rightarrow> unit io" where
  "disband_channel ch_id w =
     (case get_channel (guild w) ch_id of
        None \<Rightarrow> io_return () w
      | Some ch \<Rightarrow>
          except_forbidden (channel_delete ch)
            (print (''[WARN] Missing permission to delete channel '' @ channel_name ch)) w)"

fun disband_channels :: "int list \<Rightarrow> unit io" where
  "disband_channels [] = io_return ()"
| "disband_channels (ch_id # ch_ids) =
     io_bind (disband_channel ch_id) (\<lambda>_. disband_channels ch_ids)"

definition disband_category :: "string \<Rightarrow> unit io" where
  "disband_category clan_name' w =
     (let category_name = ''CLAN - '' @ clan_name' in
      case get_category (guild w) category_name of
        None \<Rightarrow> io_return () w
      | Some category \<Rightarrow>
          if length (category_channels (guild w) category) = 0 then
            except_forbidden (channel_delete category)
              (print (''[WARN] Missing permission to delete category '' @ category_name)) w
          else io_return () w)"

definition disband_clan :: "int \<Rightarrow> string \<Rightarrow> unit io" where
  "disband_clan user clan_name' w =
     (case get_clan_by_name (db w) clan_name' of
        None \<Rightarrow> send_message (Message ''Clan not found!'') w
      | Some clan \<Rightarrow>
          if user \<noteq> leader_id clan then
            send_message (Message ''Only the clan leader can disband the clan!'') w
          else
            io_bind (disband_role clan_name')
              (\<lambda>_. io_bind (disband_channels [text_channel_id clan, voice_channel_id clan])
                (\<lambda>_. io_bind (disband_category clan_name')
                  (\<lambda>_. io_bind (remove_clan_from_db (clan_id clan))
                    (\<lambda>_. send_message
                            (Message (''Clan **'' @ clan_name'
                                      @ ''** has been disbanded.'')))))) w)"

definition clan_info :: "string \<Rightarrow> unit io" where
  "clan_info clan_name' w =
     (case get_clan_by_name (db w) clan_name' of
        None \<Rightarrow> send_message (Message ''Clan not found!'') w
      | Some clan \<Rightarrow>
          (let leader = get_member (guild w) (leader_id clan);
               members_ids = get_members (db w) (clan_id clan);
               members' = map (get_member (guild w)) members_ids;
               text_channel = get_channel (guild w) (text_channel_id clan);
               voice_channel = get_channel (guild w) (voice_channel_id clan);
               member_mentions =
                 join '', '' (map member_mention (List.map_filter (\<lambda>m. m) members'))
           in send_message
                (EmbedReply
                   \<lparr>embed_title = ''Clan Info: '' @ clan_name clan,
                    embed_fields =
                      [(''Leader'',
                        (case leader of None \<Rightarrow> ''Unknown'' | Some l \<Rightarrow> member_mention l),
                        False),
                       (''Members'',
                        (if member_mentions = [] then ''None'' else member_mentions), False),
                       (''Text Channel'',
                        (case text_channel of None \<Rightarrow> ''Deleted''
                         | Some ch \<Rightarrow> channel_mention ch), True),
                       (''Voice Channel'',
                        (case voice_channel of None \<Rightarrow> ''Deleted''
                         | Some ch \<Rightarrow> channel_mention ch), True)]\<rparr>) w))"

section \<open>Operation sequences and the properties under study\<close>

text \<open>
  A member leaves the guild: the library drops the member from its cache, then calls
  \<open>on_member_remove\<close>; the reconciliations it scheduled run afterwards, in the order in
  which they were created.
\<close>

fun run_tasks :: "int list \<Rightarrow> world \<Rightarrow> world" where
  "run_tasks [] w = w"
| "run_tasks (cid # cids) w = run_tasks cids (snd (update_clan_permissions cid w))"

definition member_leaves :: "int \<Rightarrow> world \<Rightarrow> world" where
  "member_leaves mid w =
     (let cids = map fst (filter (\<lambda>row. snd row = mid) (clan_members (db w)));
          w1 = w\<lparr>guild := (guild w)\<lparr>members := filter (\<lambda>m. member_id m \<noteq> mid)
                                                 (members (guild w))\<rparr>\<rparr>
      in run_tasks cids (snd (on_member_remove mid w1)))"

datatype op =
    Create int string
  | Invite int int string
  | Kick int int string
  | Depart int

fun step :: "op \<Rightarrow> world \<Rightarrow> world" where
  "step (Create user name) w = snd (create_clan user name w)"
| "step (Invite user member name) w = snd (invite_clan user member name w)"
| "step (Kick user member name) w = snd (kick_clan user member name w)"
| "step (Depart member) w = member_leaves member w"

fun run :: "op list \<Rightarrow> world \<Rightarrow> world" where
  "run [] w = w"
| "run (x # xs) w = run xs (step x w)"





text \<open>The validation of invite, kick and disband fails: the clan is not found, or the
  requester is not its recorded leader.\<close>

definition validation_fails :: "database \<Rightarrow> int \<Rightarrow> string \<Rightarrow> bool" where
  "validation_fails d user name =
     (case get_clan_by_name d name of None \<Rightarrow> True | Some clan \<Rightarrow> user \<noteq> leader_id clan)"

text \<open>The clan row, the role, both channels and the leader are all found.\<close>

definition resolvable :: "world \<Rightarrow> int \<Rightarrow> bool" where
  "resolvable w cid =
     (case get_clan_by_id (db w) cid of
        None \<Rightarrow> False
      | Some clan \<Rightarrow>
          get_role (guild w) (clan_name clan) \<noteq> None \<and>
          get_channel (guild w) (text_channel_id clan) \<noteq> None \<and>
          get_channel (guild w) (voice_channel_id clan) \<noteq> None \<and>
          get_member (guild w) (leader_id clan) \<noteq> None)"

text \<open>The two membership rows of a member, if there are several: all clans the store
  records for the member.\<close>

definition clans_of_member :: "database \<Rightarrow> int \<Rightarrow> int list" where
  "clans_of_member d mid = map fst (filter (\<lambda>row. snd row = mid) (clan_members d))"

subsection \<open>Concrete worlds\<close>

definition no_failures :: "ext_call \<Rightarrow> exn option" where
  "no_failures call = None"

definition fails_only :: "ext_call \<Rightarrow> exn \<Rightarrow> ext_call \<Rightarrow> exn option" where
  "fails_only bad e call = (if call = bad then Some e else None)"

text \<open>A guild with three members and no clan.\<close>

definition world0 :: world where
  "world0 =
     \<lparr>db = \<lparr>clans = [], clan_members = [], seq = 0\<rparr>,
      guild = \<lparr>default_role = 0,
               roles = [\<lparr>role_id = 0, role_name = ''@everyone''\<rparr>],
               members = [\<lparr>member_id = 1, member_roles = [0]\<rparr>,
                          \<lparr>member_id = 2, member_roles = [0]\<rparr>,
                          \<lparr>member_id = 3, member_roles = [0]\<rparr>],
               channels = [],
               next_id = 100\<rparr>,
      fails = no_failures,
      exn_text = exn_str,
      trace = []\<rparr>"

text \<open>The same guild with clan Alpha, led by member 1, with members 1 and 2.\<close>

definition alpha_row :: clan_row where
  "alpha_row =
     \<lparr>clan_id = 1, clan_name = ''Alpha'', leader_id = 1,
      text_channel_id = 102, voice_channel_id = 103\<rparr>"

definition alpha_world :: world where
  "alpha_world =
     \<lparr>db = \<lparr>clans = [alpha_row], clan_members = [(1, 1), (1, 2)], seq = 1\<rparr>,
      guild = \<lparr>default_role = 0,
               roles = [\<lparr>role_id = 0, role_name = ''@everyone''\<rparr>,
                        \<lparr>role_id = 100, role_name = ''Alpha''\<rparr>],
               members = [\<lparr>member_id = 1, member_roles = [0, 100]\<rparr>,
                          \<lparr>member_id = 2, member_roles = [0, 100]\<rparr>,
                          \<lparr>member_id = 3, member_roles = [0]\<rparr>],
               channels =
                 [\<lparr>channel_id = 101, channel_name = ''CLAN - Alpha'',
                   channel_kind = CategoryChannel, category_id = None, overwrites = []\<rparr>,
                  \<lparr>channel_id = 102, channel_name = ''alpha-text'',
                   channel_kind = TextChannel, category_id = Some 101, overwrites = []\<rparr>,
                  \<lparr>channel_id = 103, channel_name = ''alpha-voice'',
                   channel_kind = VoiceChannel, category_id = Some 101, overwrites = []\<rparr>],
               next_id = 104\<rparr>,
      fails = no_failures,
      exn_text = exn_str,
      trace = []\<rparr>"

subsection \<open>Actions that keep a property of the store\<close>




subsection \<open>The edits a reconciliation applies\<close>

text \<open>What \<open>channel.edit(overwrites=ov)\<close> does to a channel of the guild, and what the two
  edits of a reconciliation amount to: none when the first is refused, the first alone
  when the second is refused, both otherwise.\<close>

definition set_overwrites :: "int \<Rightarrow> overwrite_dict \<Rightarrow> channel \<Rightarrow> channel" where
  "set_overwrites i ov ch = (if channel_id ch = i then ch\<lparr>overwrites := ov\<rparr> else ch)"

definition applied_edits :: "world \<Rightarrow> clan_row \<Rightarrow> overwrite_dict \<Rightarrow> channel \<Rightarrow> channel" where
  "applied_edits w clan ov =
     (if fails w (EditChannel (text_channel_id clan)) \<noteq> None then (\<lambda>ch. ch)
      else if fails w (EditChannel (voice_channel_id clan)) \<noteq> None
      then set_overwrites (text_channel_id clan) ov
      else (\<lambda>ch. set_overwrites (voice_channel_id clan) ov
                   (set_overwrites (text_channel_id clan) ov ch)))"

section \<open>Basic facts about the world\<close>

lemma log_event_simps:
  "db (log_event e w) = db w"
  "guild (log_event e w) = guild w"
  "fails (log_event e w) = fails w"
  "trace (log_event e w) = trace w @ [e]"
  by (simp_all add: log_event_def)

section \<open>Validation failures (claim C9)\<close>

text \<open>
  Claim C9. When invite, kick or disband fails validation (the clan name is not found, or
  the requester is not the recorded leader), the failure is reported to the requester and
  nothing else happens: the handler returns normally, and the world it leaves differs from
  the one it found by one reply at the end of the trace, which is \<open>Clan not found!\<close> when
  no clan has the name and the handler's own \<open>Only the clan leader can ...\<close> message when
  the requester is not the leader. The database and the guild (roles, members, channels
  and their overwrites) are the same, and no call to the platform was made.
\<close>

theorem validation_failure_changes_nothing:
  assumes "validation_fails (db w) user name"
  shows "invite_clan user member name w =
           (Inr (),
            w\<lparr>trace := trace w @
                 [Reply (Message (if get_clan_by_name (db w) name = None
                                  then ''Clan not found!''
                                  else ''Only the clan leader can invite members!''))]\<rparr>) \<and>
         kick_clan user member name w =
           (Inr (),
            w\<lparr>trace := trace w @
                 [Reply (Message (if get_clan_by_name (db w) name = None
                                  then ''Clan not found!''
                                  else ''Only the clan leader can kick members!''))]\<rparr>) \<and>
         disband_clan user name w =
           (Inr (),
            w\<lparr>trace := trace w @
                 [Reply (Message (if get_clan_by_name (db w) name = None
                                  then ''Clan not found!''
                                  else ''Only the clan leader can disband the clan!''))]\<rparr>)"
  using assms
  by (auto simp: validation_fails_def invite_clan_def kick_clan_def disband_clan_def
        send_message_def log_event_def split: option.splits)

text \<open>Scenario D: member 3, who does not lead Alpha, tries to kick member 2; and the
  leader of Alpha tries to disband a clan that does not exist.\<close>

theorem validation_failure_witness:
  "validation_fails (db alpha_world) 3 ''Alpha'' \<and>
   kick_clan 3 2 ''Alpha'' alpha_world =
     (Inr (),
      alpha_world\<lparr>trace := trace alpha_world @
                     [Reply (Message ''Only the clan leader can kick members!'')]\<rparr>) \<and>
   validation_fails (db alpha_world) 1 ''Beta'' \<and>
   disband_clan 1 ''Beta'' alpha_world =
     (Inr (),
      alpha_world\<lparr>trace := trace alpha_world @ [Reply (Message ''Clan not found!'')]\<rparr>)"
proof -
  have v: "validation_fails (db alpha_world) 3 ''Alpha''"
    by (simp add: validation_fails_def alpha_world_def alpha_row_def get_clan_by_name_def)
  have n: "validation_fails (db alpha_world) 1 ''Beta''"
    by (simp add: validation_fails_def alpha_world_def alpha_row_def get_clan_by_name_def)
  have a: "get_clan_by_name (db alpha_world) ''Alpha'' \<noteq> None"
    by (simp add: alpha_world_def alpha_row_def get_clan_by_name_def)
  have b: "get_clan_by_name (db alpha_world) ''Beta'' = None"
    by (simp add: alpha_world_def alpha_row_def get_clan_by_name_def)
  from validation_failure_changes_nothing [OF v, of 2]
       validation_failure_changes_nothing [OF n, of 2] v n a b
  show ?thesis
    by simp
qed

section \<open>Reconciliation (claims C5 and C6)\<close>

lemma get_channel_id: "get_channel g i = Some ch \<Longrightarrow> channel_id ch = i"
  by (auto simp: get_channel_def find_Some_iff)

lemma find_map_id:
  assumes "\<And>ch. channel_id (f ch) = channel_id ch"
  shows "find (\<lambda>ch. channel_id ch = i) (map f chs) = map_option f (find (\<lambda>ch. channel_id ch = i) chs)"
  using assms by (induction chs) auto

lemma applied_edits_id [simp]: "channel_id (applied_edits w clan ov ch) = channel_id ch"
  by (simp add: applied_edits_def set_overwrites_def)

lemma applied_edits_idem:
  "applied_edits w clan ov (applied_edits w clan ov ch) = applied_edits w clan ov ch"
  by (simp add: applied_edits_def set_overwrites_def)

lemma build_overwrites_cong:
  "members g' = members g \<Longrightarrow> default_role g' = default_role g \<Longrightarrow>
   build_overwrites g' r l ms = build_overwrites g r l ms"
  by (simp add: build_overwrites_def get_member_def)

lemma ext_None: "fails w c = None \<Longrightarrow> ext c f w = (Inr (), log_event (Ext c) (w\<lparr>guild := f (guild w)\<rparr>))"
  by (simp add: ext_def)

lemma ext_Some: "fails w c = Some e \<Longrightarrow> ext c f w = (Inl e, log_event (ExtFailed c e) w)"
  by (simp add: ext_def)

lemma update_resolved_eq:
  assumes "get_clan_by_id (db w) cid = Some clan"
    and "get_role (guild w) (clan_name clan) = Some r"
    and "get_channel (guild w) (text_channel_id clan) = Some tc"
    and "get_channel (guild w) (voice_channel_id clan) = Some vc"
    and "get_member (guild w) (leader_id clan) = Some leader"
  shows "update_clan_permissions cid w =
     io_try
       (io_bind (channel_edit tc (build_overwrites (guild w) r leader (get_members (db w) cid)))
          (\<lambda>_. channel_edit vc (build_overwrites (guild w) r leader (get_members (db w) cid))))
       (\<lambda>e. if e = Forbidden
            then print (''[WARN] Bot missing access to edit channels for clan '' @ clan_name clan)
            else print (''[ERROR] Failed updating permissions for clan ''
                        @ clan_name clan @ '': '' @ exn_text w e))
       io_return w"
  using assms by (simp add: update_clan_permissions_def Let_def)

lemma update_resolved:
  assumes c: "get_clan_by_id (db w) cid = Some clan"
    and r: "get_role (guild w) (clan_name clan) = Some r"
    and tc: "get_channel (guild w) (text_channel_id clan) = Some tc"
    and vc: "get_channel (guild w) (voice_channel_id clan) = Some vc"
    and l: "get_member (guild w) (leader_id clan) = Some leader"
  shows "fst (update_clan_permissions cid w) = Inr () \<and>
         db (snd (update_clan_permissions cid w)) = db w \<and>
         fails (snd (update_clan_permissions cid w)) = fails w \<and>
         guild (snd (update_clan_permissions cid w)) =
           (guild w)\<lparr>channels :=
              map (applied_edits w clan
                     (build_overwrites (guild w) r leader (get_members (db w) cid)))
                (channels (guild w))\<rparr>"
proof -
  have t: "channel_id tc = text_channel_id clan" and v: "channel_id vc = voice_channel_id clan"
    using tc vc get_channel_id by blast+
  note eq = update_resolved_eq [OF c r tc vc l]
  show ?thesis
  proof (cases "fails w (EditChannel (text_channel_id clan))")
    case (Some e)
    then show ?thesis
      by (simp add: eq io_try_def io_bind_def io_raise_def channel_edit_def t ext_Some
            print_def log_event_def applied_edits_def)
  next
    case None
    note tn = None
    show ?thesis
    proof (cases "fails w (EditChannel (voice_channel_id clan))")
      case (Some e)
      then show ?thesis using tn
        by (simp add: eq io_try_def io_bind_def io_raise_def channel_edit_def t v ext_def
              print_def log_event_def applied_edits_def set_overwrites_def)
    next
      case None
      then show ?thesis using tn
        by (simp add: eq io_try_def io_bind_def io_raise_def io_return_def channel_edit_def t v
              ext_def log_event_def applied_edits_def set_overwrites_def comp_def)
    qed
  qed
qed

lemma update_unresolved:
  assumes "\<not> resolvable w cid"
  shows "update_clan_permissions cid w = (Inr (), w)"
  using assms
  by (auto simp: update_clan_permissions_def resolvable_def io_return_def split: option.splits)

text \<open>
  Claim C5. Reconciliation is idempotent: with the store and the rest of the world left as
  the first call left them, a second call of \<open>update_clan_permissions\<close> for the same clan
  leaves the guild, and so the overwrites of both channels, exactly as the first call
  did; the store is untouched by both.
\<close>

theorem reconcile_idempotent:
  "guild (snd (update_clan_permissions cid (snd (update_clan_permissions cid w))))
     = guild (snd (update_clan_permissions cid w)) \<and>
   db (snd (update_clan_permissions cid (snd (update_clan_permissions cid w))))
     = db (snd (update_clan_permissions cid w))"
proof (cases "resolvable w cid")
  case False
  then show ?thesis by (simp add: update_unresolved)
next
  case True
  then obtain clan r tc vc leader where
    c: "get_clan_by_id (db w) cid = Some clan"
    and r: "get_role (guild w) (clan_name clan) = Some r"
    and tc: "get_channel (guild w) (text_channel_id clan) = Some tc"
    and vc: "get_channel (guild w) (voice_channel_id clan) = Some vc"
    and l: "get_member (guild w) (leader_id clan) = Some leader"
    by (auto simp: resolvable_def split: option.splits)
  define ov where "ov = build_overwrites (guild w) r leader (get_members (db w) cid)"
  define F where "F = applied_edits w clan ov"
  define w1 where "w1 = snd (update_clan_permissions cid w)"
  have w1: "db w1 = db w" "fails w1 = fails w"
    "guild w1 = (guild w)\<lparr>channels := map F (channels (guild w))\<rparr>"
    using update_resolved [OF c r tc vc l] by (simp_all add: w1_def F_def ov_def)
  have Fid: "\<And>ch. channel_id (F ch) = channel_id ch" by (simp add: F_def)
  have c1: "get_clan_by_id (db w1) cid = Some clan" using c w1 by simp
  have r1: "get_role (guild w1) (clan_name clan) = Some r" using r w1 by (simp add: get_role_def)
  have tc1: "get_channel (guild w1) (text_channel_id clan) = Some (F tc)"
    using tc w1 Fid by (simp add: get_channel_def find_map_id)
  have vc1: "get_channel (guild w1) (voice_channel_id clan) = Some (F vc)"
    using vc w1 Fid by (simp add: get_channel_def find_map_id)
  have l1: "get_member (guild w1) (leader_id clan) = Some leader"
    using l w1 by (simp add: get_member_def)
  have ov1: "build_overwrites (guild w1) r leader (get_members (db w1) cid) = ov"
    using build_overwrites_cong [of "guild w1" "guild w" r leader "get_members (db w) cid"] w1
    by (simp add: ov_def get_members_def)
  have F1: "applied_edits w1 clan ov = F"
    using w1 by (simp add: F_def applied_edits_def)
  have "guild (snd (update_clan_permissions cid w1)) =
          (guild w1)\<lparr>channels := map F (channels (guild w1))\<rparr>"
    and d: "db (snd (update_clan_permissions cid w1)) = db w1"
    using update_resolved [OF c1 r1 tc1 vc1 l1] by (simp_all add: ov1 F1)
  moreover have "map F (channels (guild w1)) = channels (guild w1)"
    using w1 by (simp add: F_def applied_edits_idem)
  ultimately show ?thesis by (simp add: w1_def)
qed



section \<open>What reconciliation gives the leader (claim C2)\<close>

text \<open>
  Claim C2 says that reconciliation grants the leader view, send, connect and speak plus
  the right to manage the channels. In the world \<open>alpha_world\<close> everything is resolvable
  and both edits go through, yet on both channels the leader (member 1) ends with the
  plain member overwrite, in which \<open>manage_channels\<close> is unset: the loop over the recorded
  members assigns \<open>overwrites[member]\<close> for the leader too, and replaces the entry that the
  dict literal had given to the leader.
\<close>

theorem reconcile_drops_leader_management:
  "resolvable alpha_world 1 \<and>
   fst (update_clan_permissions 1 alpha_world) = Inr () \<and>
   map (\<lambda>ch. (channel_id ch, map_of (overwrites ch) (MemberP 1)))
     (channels (guild (snd (update_clan_permissions 1 alpha_world))))
     = [(101, None), (102, Some member_access), (103, Some member_access)] \<and>
   manage_channels member_access = None \<and>
   manage_channels leader_access = Some True"
  by code_simp

section \<open>Rollback of a failed creation (claim C3)\<close>

text \<open>
  Claim C3 says that a creation that fails after the role was created deletes every
  resource created so far before the error is reported. When the platform forbids the
  creation of the text channel, the handler replies first, deletes the role, and then
  reads \<open>text_channel\<close>, which was never bound: it ends with UnboundLocalError, and the
  category \<open>CLAN - Alpha\<close> created for the clan stays in the guild.
\<close>

theorem create_clan_leaves_category:
  "fst (create_clan 1 ''Alpha''
          (world0\<lparr>fails := fails_only (CreateTextChannel ''alpha-text'') Forbidden\<rparr>))
     = Inl UnboundLocalError \<and>
   map channel_name
     (channels (guild (snd (create_clan 1 ''Alpha''
          (world0\<lparr>fails := fails_only (CreateTextChannel ''alpha-text'') Forbidden\<rparr>)))))
     = [''CLAN - Alpha''] \<and>
   trace (snd (create_clan 1 ''Alpha''
          (world0\<lparr>fails := fails_only (CreateTextChannel ''alpha-text'') Forbidden\<rparr>)))
     = [Ext (CreateRole ''Alpha''), Ext (CreateCategory ''CLAN - Alpha''),
        ExtFailed (CreateTextChannel ''alpha-text'') Forbidden,
        Reply (Message ''Bot cannot create channels. Check permissions.''),
        Ext (DeleteRole 100)]"
  by code_simp

section \<open>Missing roles in invite and kick (claim C7)\<close>

text \<open>
  Claim C7 says that invite and kick complete without failing when the role of the clan
  was deleted from the guild. With the role of Alpha gone, \<open>get(guild.roles, name=...)\<close>
  is \<open>None\<close>, and both handlers pass it to \<open>add_roles\<close> or \<open>remove_roles\<close>: they raise
  AttributeError, write nothing to the database and send no reply.
\<close>

theorem invite_kick_raise_without_role:
  "invite_clan 1 3 ''Alpha''
     (alpha_world\<lparr>guild := (guild alpha_world)\<lparr>roles := [\<lparr>role_id = 0, role_name = ''@everyone''\<rparr>]\<rparr>\<rparr>)
     = (Inl AttributeError,
        alpha_world\<lparr>guild := (guild alpha_world)\<lparr>roles := [\<lparr>role_id = 0, role_name = ''@everyone''\<rparr>]\<rparr>\<rparr>) \<and>
   kick_clan 1 2 ''Alpha''
     (alpha_world\<lparr>guild := (guild alpha_world)\<lparr>roles := [\<lparr>role_id = 0, role_name = ''@everyone''\<rparr>]\<rparr>\<rparr>)
     = (Inl AttributeError,
        alpha_world\<lparr>guild := (guild alpha_world)\<lparr>roles := [\<lparr>role_id = 0, role_name = ''@everyone''\<rparr>]\<rparr>\<rparr>)"
  by (simp add: invite_clan_def kick_clan_def alpha_world_def alpha_row_def
        get_clan_by_name_def get_role_def add_roles_def remove_roles_def io_bind_def
        io_try_def io_raise_def)

section \<open>One clan for each member (claim C8)\<close>

text \<open>
  Claim C8 says that create and invite both check that the member has no membership, so
  that no member gets two membership records. Only create checks. Member 1 creates Alpha,
  member 2 creates Beta, then member 1 invites member 2 into Alpha: the store now records
  member 2 in clan 2 and in clan 1.
\<close>

theorem invite_adds_second_membership:
  "clans_of_member
     (db (run [Create 1 ''Alpha'', Create 2 ''Beta'', Invite 1 2 ''Alpha''] world0)) 2
     = [2, 1]"
  by code_simp

section \<open>Disband: a failing role removal (claim C10)\<close>

lemma io_bind_Inl: "fst (m w) = Inl e \<Longrightarrow> io_bind m f w = (Inl e, snd (m w))"
  by (cases "m w") (simp add: io_bind_def io_try_def io_raise_def)

lemma io_bind_Inr: "fst (m w) = Inr x \<Longrightarrow> io_bind m f w = f x (snd (m w))"
  by (cases "m w") (simp add: io_bind_def io_try_def)

lemma remove_roles_frame:
  "db (snd (remove_roles mid (Some r) w)) = db w \<and>
   fails (snd (remove_roles mid (Some r) w)) = fails w \<and>
   roles (guild (snd (remove_roles mid (Some r) w))) = roles (guild w) \<and>
   channels (guild (snd (remove_roles mid (Some r) w))) = channels (guild w)"
  by (simp add: remove_roles_def ext_def log_event_def split: option.splits)

lemma remove_roles_result:
  "fst (remove_roles mid (Some r) w) =
     (case fails w (RemoveRoles mid (role_id r)) of None \<Rightarrow> Inr () | Some e \<Rightarrow> Inl e)"
  by (simp add: remove_roles_def ext_def split: option.splits)

lemma remove_role_from_members_frame:
  "db (snd (remove_role_from_members r ms w)) = db w \<and>
   fails (snd (remove_role_from_members r ms w)) = fails w \<and>
   roles (guild (snd (remove_role_from_members r ms w))) = roles (guild w) \<and>
   channels (guild (snd (remove_role_from_members r ms w))) = channels (guild w)"
proof (induction ms arbitrary: w)
  case Nil
  then show ?case by (simp add: io_return_def)
next
  case (Cons m ms)
  show ?case
  proof (cases "fst (remove_roles (member_id m) (Some r) w)")
    case (Inl e)
    then show ?thesis
      by (simp add: io_bind_Inl remove_roles_frame)
  next
    case (Inr u)
    then show ?thesis
      using Cons.IH [of "snd (remove_roles (member_id m) (Some r) w)"]
      by (simp add: io_bind_Inr remove_roles_frame)
  qed
qed

lemma remove_role_from_members_raises:
  assumes "m \<in> set ms" and "fails w (RemoveRoles (member_id m) (role_id r)) = Some e"
  shows "\<exists>e'. fst (remove_role_from_members r ms w) = Inl e'"
  using assms
proof (induction ms arbitrary: w)
  case Nil
  then show ?case by simp
next
  case (Cons x xs)
  show ?case
  proof (cases "fst (remove_roles (member_id x) (Some r) w)")
    case (Inl e')
    then show ?thesis by (simp add: io_bind_Inl)
  next
    case (Inr u)
    then have "x \<noteq> m" using Cons.prems by (auto simp: remove_roles_result)
    then have "m \<in> set xs" using Cons.prems by simp
    moreover have "fails (snd (remove_roles (member_id x) (Some r) w))
                     (RemoveRoles (member_id m) (role_id r)) = Some e"
      using Cons.prems by (simp add: remove_roles_frame)
    ultimately show ?thesis using Cons.IH Inr by (simp add: io_bind_Inr)
  qed
qed

text \<open>
  Claim C10. When, during disband, removing the role from one of its current holders
  raises, the handler stops there: it ends with an exception, and the role, the channels
  and categories of the guild, and the store (the clan row and all its membership records)
  are as they were before the call.
\<close>

theorem disband_stops_when_unassign_fails:
  assumes "get_clan_by_name (db w) name = Some clan"
    and "user = leader_id clan"
    and "get_role (guild w) name = Some r"
    and "m \<in> set (role_members (guild w) r)"
    and "fails w (RemoveRoles (member_id m) (role_id r)) = Some e"
  shows "(\<exists>e'. fst (disband_clan user name w) = Inl e') \<and>
         db (snd (disband_clan user name w)) = db w \<and>
         roles (guild (snd (disband_clan user name w))) = roles (guild w) \<and>
         channels (guild (snd (disband_clan user name w))) = channels (guild w)"
proof -
  let ?loop = "remove_role_from_members r (role_members (guild w) r)"
  obtain e' where e': "fst (?loop w) = Inl e'"
    using remove_role_from_members_raises [OF assms(4) assms(5)] by blast
  have role: "disband_role name w = (Inl e', snd (?loop w))"
    using assms(3) e' by (simp add: disband_role_def io_bind_Inl)
  have "disband_clan user name w = (Inl e', snd (?loop w))"
    using assms(1,2) role by (simp add: disband_clan_def io_bind_Inl)
  then show ?thesis
    by (simp add: remove_role_from_members_frame)
qed

theorem disband_stops_witness:
  "get_clan_by_name (db alpha_world) ''Alpha'' = Some alpha_row \<and>
   (\<exists>e'. fst (disband_clan 1 ''Alpha''
                 (alpha_world\<lparr>fails := fails_only (RemoveRoles 2 100) HTTPException\<rparr>)) = Inl e') \<and>
   db (snd (disband_clan 1 ''Alpha''
             (alpha_world\<lparr>fails := fails_only (RemoveRoles 2 100) HTTPException\<rparr>)))
     = db alpha_world"
proof -
  let ?w = "alpha_world\<lparr>fails := fails_only (RemoveRoles 2 100) HTTPException\<rparr>"
  let ?r = "\<lparr>role_id = 100, role_name = ''Alpha''\<rparr>"
  let ?m = "\<lparr>member_id = 2, member_roles = [0, 100]\<rparr>"
  have c: "get_clan_by_name (db ?w) ''Alpha'' = Some alpha_row"
    by (simp add: alpha_world_def alpha_row_def get_clan_by_name_def)
  have u: "(1::int) = leader_id alpha_row" by (simp add: alpha_row_def)
  have r: "get_role (guild ?w) ''Alpha'' = Some ?r"
    by (simp add: alpha_world_def get_role_def)
  have m: "?m \<in> set (role_members (guild ?w) ?r)"
    by (simp add: alpha_world_def role_members_def)
  have f: "fails ?w (RemoveRoles (member_id ?m) (role_id ?r)) = Some HTTPException"
    by (simp add: fails_only_def)
  from disband_stops_when_unassign_fails [OF c u r m f] c show ?thesis
    by (simp add: alpha_world_def)
qed

section \<open>Disband: a channel that cannot be deleted (claim C4)\<close>

lemma remove_role_from_members_returns:
  assumes "\<forall>m \<in> set ms. fails w (RemoveRoles (member_id m) (role_id r)) = None"
  shows "fst (remove_role_from_members r ms w) = Inr ()"
  using assms
proof (induction ms arbitrary: w)
  case Nil
  then show ?case by (simp add: io_return_def)
next
  case (Cons x xs)
  have ok: "fst (remove_roles (member_id x) (Some r) w) = Inr ()"
    using Cons.prems by (simp add: remove_roles_result)
  have "\<forall>m \<in> set xs. fails (snd (remove_roles (member_id x) (Some r) w))
          (RemoveRoles (member_id m) (role_id r)) = None"
    using Cons.prems by (simp add: remove_roles_frame)
  then show ?case using Cons.IH ok by (simp add: io_bind_Inr)
qed

lemma find_None_filter_id:
  "find (\<lambda>x. channel_id x = i) xs = None \<Longrightarrow> filter (\<lambda>x. channel_id x \<noteq> i) xs = xs"
  by (induction xs) (auto split: if_splits)

lemma find_other:
  "i \<noteq> j \<Longrightarrow> find (\<lambda>x. channel_id x = j) (filter (\<lambda>x. channel_id x \<noteq> i) xs)
     = find (\<lambda>x. channel_id x = j) xs"
  by (induction xs) auto

lemma disband_role_spec:
  assumes "\<forall>c. c \<noteq> DeleteChannel vid \<longrightarrow> fails w c = None"
  shows "fst (disband_role name w) = Inr () \<and>
         db (snd (disband_role name w)) = db w \<and>
         fails (snd (disband_role name w)) = fails w \<and>
         channels (guild (snd (disband_role name w))) = channels (guild w) \<and>
         (\<forall>r. get_role (guild w) name = Some r \<longrightarrow>
              role_id r \<notin> role_id ` set (roles (guild (snd (disband_role name w)))))"
proof (cases "get_role (guild w) name")
  case None
  then show ?thesis by (simp add: disband_role_def io_return_def)
next
  case (Some r)
  let ?loop = "remove_role_from_members r (role_members (guild w) r)"
  let ?w1 = "snd (?loop w)"
  have ok: "fst (?loop w) = Inr ()"
    using assms by (simp add: remove_role_from_members_returns)
  have fr: "db ?w1 = db w" "fails ?w1 = fails w" "roles (guild ?w1) = roles (guild w)"
    "channels (guild ?w1) = channels (guild w)"
    by (simp_all add: remove_role_from_members_frame)
  have del: "fails ?w1 (DeleteRole (role_id r)) = None"
    using assms fr by simp
  have "disband_role name w =
          except_forbidden (role_delete r)
            (print (''[WARN] Missing permission to delete role '' @ role_name r)) ?w1"
    using Some ok by (simp add: disband_role_def io_bind_Inr)
  then show ?thesis
    using Some del fr
    by (auto simp: except_forbidden_def io_try_def io_return_def role_delete_def ext_def
          log_event_def)
qed

lemma disband_channel_deletes:
  assumes "fails w (DeleteChannel i) = None"
  shows "fst (disband_channel i w) = Inr () \<and>
         db (snd (disband_channel i w)) = db w \<and>
         fails (snd (disband_channel i w)) = fails w \<and>
         roles (guild (snd (disband_channel i w))) = roles (guild w) \<and>
         channels (guild (snd (disband_channel i w))) =
           filter (\<lambda>x. channel_id x \<noteq> i) (channels (guild w))"
proof (cases "get_channel (guild w) i")
  case None
  then show ?thesis
    by (simp add: disband_channel_def io_return_def get_channel_def find_None_filter_id)
next
  case (Some ch)
  then have "channel_id ch = i" by (rule get_channel_id)
  then show ?thesis
    using Some assms
    by (simp add: disband_channel_def except_forbidden_def io_try_def io_return_def
          channel_delete_def ext_def log_event_def)
qed

lemma disband_channel_forbidden:
  assumes "fails w (DeleteChannel i) = Some Forbidden" and "get_channel (guild w) i = Some ch"
  shows "fst (disband_channel i w) = Inr () \<and>
         db (snd (disband_channel i w)) = db w \<and>
         fails (snd (disband_channel i w)) = fails w \<and>
         guild (snd (disband_channel i w)) = guild w \<and>
         ExtFailed (DeleteChannel i) Forbidden \<in> set (trace (snd (disband_channel i w)))"
proof -
  have "channel_id ch = i" using assms(2) by (rule get_channel_id)
  then show ?thesis
    using assms
    by (simp add: disband_channel_def except_forbidden_def io_try_def io_return_def
          channel_delete_def ext_def log_event_def print_def)
qed

lemma disband_category_spec:
  assumes "\<forall>c. fails w c = None \<or> fails w c = Some Forbidden"
  shows "fst (disband_category name w) = Inr () \<and>
         db (snd (disband_category name w)) = db w \<and>
         roles (guild (snd (disband_category name w))) = roles (guild w) \<and>
         (\<exists>P. channels (guild (snd (disband_category name w))) =
               filter P (channels (guild w))) \<and>
         set (trace w) \<subseteq> set (trace (snd (disband_category name w)))"
proof -
  have id: "\<exists>P. channels (guild w) = filter P (channels (guild w))"
    by (rule exI [of _ "\<lambda>_. True"]) simp
  show ?thesis
  proof (cases "get_category (guild w) (''CLAN - '' @ name)")
    case None
    then show ?thesis using id by (simp add: disband_category_def io_return_def)
  next
    case (Some cat)
    show ?thesis
    proof (cases "length (category_channels (guild w) cat) = 0")
      case False
      then show ?thesis using Some id by (simp add: disband_category_def io_return_def)
    next
      case True
      have eq: "disband_category name w =
          except_forbidden (channel_delete cat)
            (print (''[WARN] Missing permission to delete category '' @ ''CLAN - '' @ name)) w"
        using Some True by (simp add: disband_category_def)
      from assms have "fails w (DeleteChannel (channel_id cat)) = None \<or>
                       fails w (DeleteChannel (channel_id cat)) = Some Forbidden"
        by blast
      then show ?thesis
      proof
        assume "fails w (DeleteChannel (channel_id cat)) = None"
        then show ?thesis
          by (auto simp: eq except_forbidden_def io_try_def io_return_def channel_delete_def
                ext_def log_event_def)
      next
        assume "fails w (DeleteChannel (channel_id cat)) = Some Forbidden"
        then show ?thesis using id
          by (auto simp: eq except_forbidden_def io_try_def io_return_def channel_delete_def
                ext_def log_event_def print_def)
      qed
    qed
  qed
qed


text \<open>
  Claim C4. Teardown is best effort. When the platform refuses, with Forbidden, to delete
  the voice channel, and lets every other call through, disband still returns normally:
  the text channel is gone from the guild, the role that carried the name of the clan is
  gone, the clan row and all its membership records are gone from the store, the refused
  deletion shows in the trace, and the deletion from the store is the last thing the
  handler does before it replies.
\<close>

theorem disband_continues_after_voice_failure:
  assumes clan: "get_clan_by_name (db w) name = Some clan"
    and user: "user = leader_id clan"
    and distinct: "text_channel_id clan \<noteq> voice_channel_id clan"
    and vc: "get_channel (guild w) (voice_channel_id clan) = Some vc"
    and vf: "fails w (DeleteChannel (voice_channel_id clan)) = Some Forbidden"
    and nf: "\<forall>c. c \<noteq> DeleteChannel (voice_channel_id clan) \<longrightarrow> fails w c = None"
  shows "fst (disband_clan user name w) = Inr () \<and>
         get_channel (guild (snd (disband_clan user name w))) (text_channel_id clan) = None \<and>
         (\<forall>r. get_role (guild w) name = Some r \<longrightarrow>
              role_id r \<notin> role_id ` set (roles (guild (snd (disband_clan user name w))))) \<and>
         clan_id clan \<notin> clan_id ` set (clans (db (snd (disband_clan user name w)))) \<and>
         get_members (db (snd (disband_clan user name w))) (clan_id clan) = [] \<and>
         ExtFailed (DeleteChannel (voice_channel_id clan)) Forbidden
           \<in> set (trace (snd (disband_clan user name w))) \<and>
         (\<exists>pre r. trace (snd (disband_clan user name w)) =
                   pre @ [DbDeleteClan (clan_id clan), Reply r])"
proof -
  let ?tid = "text_channel_id clan" and ?vid = "voice_channel_id clan"
  define w1 where "w1 = snd (disband_role name w)"
  define w2 where "w2 = snd (disband_channel ?tid w1)"
  define w3 where "w3 = snd (disband_channel ?vid w2)"
  define w4 where "w4 = snd (disband_category name w3)"
  have s1: "fst (disband_role name w) = Inr ()" "db w1 = db w" "fails w1 = fails w"
    "channels (guild w1) = channels (guild w)"
    "\<forall>r. get_role (guild w) name = Some r \<longrightarrow> role_id r \<notin> role_id ` set (roles (guild w1))"
    using disband_role_spec [OF nf, of name] by (simp_all add: w1_def)
  have tf: "fails w1 (DeleteChannel ?tid) = None"
    using nf distinct s1 by simp
  have s2: "fst (disband_channel ?tid w1) = Inr ()" "db w2 = db w" "fails w2 = fails w"
    "roles (guild w2) = roles (guild w1)"
    "channels (guild w2) = filter (\<lambda>x. channel_id x \<noteq> ?tid) (channels (guild w))"
    using disband_channel_deletes [OF tf] s1 by (simp_all add: w2_def)
  have vc2: "get_channel (guild w2) ?vid = Some vc"
    using vc distinct s2 by (simp add: get_channel_def find_other)
  have vf2: "fails w2 (DeleteChannel ?vid) = Some Forbidden"
    using vf s2 by simp
  have s3: "fst (disband_channel ?vid w2) = Inr ()" "db w3 = db w" "fails w3 = fails w"
    "guild w3 = guild w2"
    "ExtFailed (DeleteChannel ?vid) Forbidden \<in> set (trace w3)"
    using disband_channel_forbidden [OF vf2 vc2] s2 by (simp_all add: w3_def)
  have f3: "\<forall>c. fails w3 c = None \<or> fails w3 c = Some Forbidden"
    using nf vf s3 by metis
  have s4: "fst (disband_category name w3) = Inr ()" "db w4 = db w"
    "roles (guild w4) = roles (guild w1)"
    "\<exists>P. channels (guild w4) = filter P (channels (guild w3))"
    "set (trace w3) \<subseteq> set (trace w4)"
    using disband_category_spec [OF f3, of name] s3 s2 by (simp_all add: w4_def)
  have chans: "disband_channels [?tid, ?vid] w1 = (Inr (), w3)"
    using s2(1) s3(1)
    by (simp add: io_bind_Inr w2_def w3_def io_return_def)
  have run: "disband_clan user name w =
      io_bind (remove_clan_from_db (clan_id clan))
        (\<lambda>_. send_message (Message (''Clan **'' @ name @ ''** has been disbanded.''))) w4"
    using clan user s1(1) chans s4(1)
    by (simp add: disband_clan_def io_bind_Inr w1_def w4_def)
  have res: "disband_clan user name w =
      (Inr (),
       log_event (Reply (Message (''Clan **'' @ name @ ''** has been disbanded.'')))
         (log_event (DbDeleteClan (clan_id clan))
            (w4\<lparr>db := (db w4)\<lparr>clans := filter (\<lambda>c. clan_id c \<noteq> clan_id clan) (clans (db w4)),
                    clan_members := filter (\<lambda>row. fst row \<noteq> clan_id clan)
                                      (clan_members (db w4))\<rparr>\<rparr>)))"
    by (simp add: run io_bind_def io_try_def remove_clan_from_db_def send_message_def)
  have text_gone: "get_channel (guild w4) ?tid = None"
  proof -
    obtain P where "channels (guild w4) = filter P (channels (guild w3))"
      using s4(4) by blast
    then show ?thesis
      using s3(4) s2(5) by (auto simp: get_channel_def find_None_iff)
  qed
  have ev: "ExtFailed (DeleteChannel ?vid) Forbidden \<in> set (trace w4)"
    using s3(5) s4(5) by blast
  show ?thesis
    using text_gone s1(5) s4(3) ev
    by (auto simp: res log_event_def get_members_def)
qed

theorem disband_continues_witness:
  "fst (disband_clan 1 ''Alpha''
          (alpha_world\<lparr>fails := fails_only (DeleteChannel 103) Forbidden\<rparr>)) = Inr () \<and>
   get_channel (guild (snd (disband_clan 1 ''Alpha''
          (alpha_world\<lparr>fails := fails_only (DeleteChannel 103) Forbidden\<rparr>)))) 102 = None \<and>
   clans (db (snd (disband_clan 1 ''Alpha''
          (alpha_world\<lparr>fails := fails_only (DeleteChannel 103) Forbidden\<rparr>)))) = []"
proof -
  let ?w = "alpha_world\<lparr>fails := fails_only (DeleteChannel 103) Forbidden\<rparr>"
  have c: "get_clan_by_name (db ?w) ''Alpha'' = Some alpha_row"
    by (simp add: alpha_world_def alpha_row_def get_clan_by_name_def)
  have u: "(1::int) = leader_id alpha_row" by (simp add: alpha_row_def)
  have d: "text_channel_id alpha_row \<noteq> voice_channel_id alpha_row"
    by (simp add: alpha_row_def)
  have v: "get_channel (guild ?w) (voice_channel_id alpha_row) =
             Some \<lparr>channel_id = 103, channel_name = ''alpha-voice'',
                   channel_kind = VoiceChannel, category_id = Some 101, overwrites = []\<rparr>"
    by (simp add: alpha_world_def alpha_row_def get_channel_def)
  have f: "fails ?w (DeleteChannel (voice_channel_id alpha_row)) = Some Forbidden"
    by (simp add: fails_only_def alpha_row_def)
  have n: "\<forall>c. c \<noteq> DeleteChannel (voice_channel_id alpha_row) \<longrightarrow> fails ?w c = None"
    by (simp add: fails_only_def alpha_row_def)
  have cl: "clans (db ?w) = [alpha_row]" by (simp add: alpha_world_def)
  note t = disband_continues_after_voice_failure [OF c u d v f n]
  have "clan_id alpha_row \<notin> clan_id ` set (clans (db (snd (disband_clan 1 ''Alpha'' ?w))))"
    using t by blast
  moreover have "clans (db (snd (disband_clan 1 ''Alpha'' ?w))) = []"
    by code_simp
  ultimately show ?thesis using t by (simp add: alpha_row_def)
qed

section \<open>The leader invariant (claim C1)\<close>

subsection \<open>Actions and the store\<close>








































subsection \<open>The invariant along a sequence of operations\<close>




end
